theory Spec2Isabelle
  imports Main
begin

section \<open>The message router of the main process (source/main/zettlr-ipc.js)\<close>

text \<open>
  The class \<^verbatim>\<open>ZettlrIPC\<close> receives messages from the renderer, checks that they carry
  a \<^verbatim>\<open>command\<close>, and forwards them through one large \<^verbatim>\<open>switch\<close> to the
  application object \<^verbatim>\<open>this._app\<close>. The router owns no data: everything it does is
  a call on a collaborator (the application object, its configuration, its path tree,
  its window) or a line on the console. The embedding therefore returns, for one call of
  \<^verbatim>\<open>dispatch\<close> or \<^verbatim>\<open>handleEvent\<close>, the sequence of these calls in the order the
  JavaScript evaluates them, the exception that ended the call (if any), the
  configuration store as the router's own \<^verbatim>\<open>set\<close> and \<^verbatim>\<open>update\<close> calls leave it,
  and (for \<^verbatim>\<open>dispatch\<close>) the payload object after the call.
\<close>

subsection \<open>JavaScript values\<close>

text \<open>
  The values that cross the transport are data: \<^verbatim>\<open>undefined\<close>, \<^verbatim>\<open>null\<close>, booleans,
  numbers, strings and objects with their own properties in insertion order. No value
  is a function. Numbers are the integral ones (file and directory hashes); an array is
  an object whose properties are its indices and \<^verbatim>\<open>length\<close>.
\<close>

datatype jsval =
    JUndefined
  | JNull
  | JBool bool
  | JNum int
  | JStr string
  | JObj "(string \<times> jsval) list"

datatype js_error = TypeError

definition nullish :: "jsval \<Rightarrow> bool" where
  "nullish v = (v = JUndefined \<or> v = JNull)"

text \<open>Decimal rendering of an index, as JavaScript names the characters of a string.\<close>

fun show_nat :: "nat \<Rightarrow> string" where
  "show_nat n =
     (if n < 10 then [''0123456789'' ! n]
      else show_nat (n div 10) @ [''0123456789'' ! (n mod 10)])"

declare show_nat.simps [simp del]

fun index_props :: "string \<Rightarrow> nat \<Rightarrow> (string \<times> jsval) list" where
  "index_props [] i = []"
| "index_props (c # cs) i = (show_nat i, JStr [c]) # index_props cs (Suc i)"

text \<open>
  The own properties of a value. An object has the ones it was built with; a string
  has one per character and \<^verbatim>\<open>length\<close>; the other primitives have none.
\<close>

fun own_props :: "jsval \<Rightarrow> (string \<times> jsval) list" where
  "own_props (JObj ps) = ps"
| "own_props (JStr s) = index_props s 0 @ [(''length'', JNum (int (length s)))]"
| "own_props JUndefined = []"
| "own_props JNull = []"
| "own_props (JBool b) = []"
| "own_props (JNum n) = []"

definition own_keys :: "jsval \<Rightarrow> string list" where
  "own_keys v = map fst (own_props v)"

definition own_value :: "jsval \<Rightarrow> string \<Rightarrow> jsval" where
  "own_value v k = (case map_of (own_props v) k of Some x \<Rightarrow> x | None \<Rightarrow> JUndefined)"

text \<open>
  \<^verbatim>\<open>v.hasOwnProperty(k)\<close> is a method call: the method is looked up on \<^verbatim>\<open>v\<close> first.
  On \<^verbatim>\<open>undefined\<close> and \<^verbatim>\<open>null\<close> the lookup throws. On a value that has an own
  property named \<^verbatim>\<open>hasOwnProperty\<close> the lookup finds that property, which is data and
  cannot be called, so the call throws as well. Otherwise the inherited
  \<^verbatim>\<open>Object.prototype.hasOwnProperty\<close> answers.
\<close>

definition has_own_property :: "jsval \<Rightarrow> string \<Rightarrow> js_error + bool" where
  "has_own_property v k =
     (if nullish v then Inl TypeError
      else if ''hasOwnProperty'' \<in> set (own_keys v) then Inl TypeError
      else Inr (k \<in> set (own_keys v)))"

text \<open>
  \<^verbatim>\<open>v.k\<close> for the names the router reads (\<^verbatim>\<open>command\<close>, \<^verbatim>\<open>content\<close>, \<^verbatim>\<open>hash\<close>,
  \<^verbatim>\<open>terms\<close>, \<^verbatim>\<open>darkTheme\<close>, \<^verbatim>\<open>snippets\<close>): none of them is defined on a built-in
  prototype, so a value without the own property reads as \<^verbatim>\<open>undefined\<close>. Reading a
  property of \<^verbatim>\<open>undefined\<close> or \<^verbatim>\<open>null\<close> throws.
\<close>

definition get_prop :: "jsval \<Rightarrow> string \<Rightarrow> js_error + jsval" where
  "get_prop v k = (if nullish v then Inl TypeError else Inr (own_value v k))"

text \<open>
  \<^verbatim>\<open>v.k = x\<close> in strict code (a class body is strict): an object gets or replaces its
  own property, keeping the insertion order; on anything else the assignment throws.
\<close>

fun assign :: "string \<Rightarrow> jsval \<Rightarrow> (string \<times> jsval) list \<Rightarrow> (string \<times> jsval) list" where
  "assign k x [] = [(k, x)]"
| "assign k x (p # ps) = (if fst p = k then (k, x) # ps else p # assign k x ps)"

fun set_prop :: "jsval \<Rightarrow> string \<Rightarrow> jsval \<Rightarrow> js_error + jsval" where
  "set_prop (JObj ps) k x = Inr (JObj (assign k x ps))"
| "set_prop JUndefined k x = Inl TypeError"
| "set_prop JNull k x = Inl TypeError"
| "set_prop (JBool b) k x = Inl TypeError"
| "set_prop (JNum n) k x = Inl TypeError"
| "set_prop (JStr s) k x = Inl TypeError"

text \<open>\<^verbatim>\<open>!v\<close> negates the truth value of \<^verbatim>\<open>v\<close>.\<close>

fun truthy :: "jsval \<Rightarrow> bool" where
  "truthy JUndefined = False"
| "truthy JNull = False"
| "truthy (JBool b) = b"
| "truthy (JNum n) = (n \<noteq> 0)"
| "truthy (JStr s) = (s \<noteq> [])"
| "truthy (JObj ps) = True"

text \<open>
  \<^verbatim>\<open>x == y\<close>, the loose equality behind \<^verbatim>\<open>!=\<close>. A boolean operand is first turned
  into the number 0 or 1. \<^verbatim>\<open>undefined\<close> and \<^verbatim>\<open>null\<close> equal each other and nothing
  else; two numbers or two strings are compared as such. The remaining comparisons (a
  string against a number, anything against an object, where the language converts a
  string to a number or an object to a primitive, or compares two references) are not
  computed here: they are asked of the parameter \<open>co\<close>.
\<close>

fun bool_to_num :: "jsval \<Rightarrow> jsval" where
  "bool_to_num (JBool b) = JNum (if b then 1 else 0)"
| "bool_to_num JUndefined = JUndefined"
| "bool_to_num JNull = JNull"
| "bool_to_num (JNum n) = JNum n"
| "bool_to_num (JStr s) = JStr s"
| "bool_to_num (JObj ps) = JObj ps"

fun same_type_eq :: "(jsval \<Rightarrow> jsval \<Rightarrow> bool) \<Rightarrow> jsval \<Rightarrow> jsval \<Rightarrow> bool" where
  "same_type_eq co (JNum a) (JNum b) = (a = b)"
| "same_type_eq co (JStr a) (JStr b) = (a = b)"
| "same_type_eq co x y = co x y"

definition loose_eq :: "(jsval \<Rightarrow> jsval \<Rightarrow> bool) \<Rightarrow> jsval \<Rightarrow> jsval \<Rightarrow> bool" where
  "loose_eq co x y =
     (if nullish x \<or> nullish y then nullish x \<and> nullish y
      else same_type_eq co (bool_to_num x) (bool_to_num y))"

subsection \<open>Collaborators and what a call leaves behind\<close>

datatype callee = Controller | Config | PathTree | FoundFile | Window

text \<open>
  One observable step of the router: a method call on a collaborator with its
  arguments, a message handed to the renderer (\<^verbatim>\<open>sender.send('message', {command,
  content})\<close>), or a console line, recorded with the key given to \<^verbatim>\<open>trans\<close> and the
  value printed with it.
\<close>

datatype action =
    Call callee string "jsval list"
  | Send string jsval
  | ConsoleError string jsval
  | ConsoleLog string jsval

text \<open>
  What the application object answers when the router asks. The collaborators are not
  part of this file; each accessor is a field holding the value it returns, and a call
  on a collaborator returns normally.
\<close>

record app =
  paths :: jsval
  quicklook :: "jsval \<Rightarrow> jsval"
  search :: "jsval \<Rightarrow> jsval \<Rightarrow> jsval"
  currentFile :: jsval
  currentDir :: jsval
  config :: "jsval \<Rightarrow> jsval"
  configCopy :: "(string \<times> jsval) list"
  supportedLangs :: jsval
  configEnv :: "jsval \<Rightarrow> jsval"

text \<open>
  \<open>paths\<close> is \<^verbatim>\<open>getPaths()\<close>; \<open>quicklook h\<close> is
  \<^verbatim>\<open>getPaths().findFile({hash: h}).withContent()\<close>; \<open>search h t\<close> is
  \<^verbatim>\<open>getPaths().findFile({hash: h}).search(t)\<close>; \<open>configCopy\<close> is the object
  \<^verbatim>\<open>JSON.parse(JSON.stringify(getConfig().getConfig()))\<close>; \<open>supportedLangs\<close> is
  \<^verbatim>\<open>getConfig().getSupportedLangs()\<close>; \<open>configEnv k\<close> is \<^verbatim>\<open>getConfig().getEnv(k)\<close>.
\<close>

text \<open>
  The configuration object (\<^verbatim>\<open>getConfig()\<close>) is not in this file. The spec describes
  it as the store behind "get/set/update configuration", read and written by key
  ("read-modify-write"). Here it is a function from keys to the values stored under
  them.
\<close>

text \<open>
  Modelled from the spec: \<^verbatim>\<open>get(key)\<close> of the missing configuration class reads the
  value stored under the key.
\<close>

definition cfg_get :: "(jsval \<Rightarrow> jsval) \<Rightarrow> jsval \<Rightarrow> jsval" where
  "cfg_get c k = c k"

text \<open>
  Modelled from the spec: \<^verbatim>\<open>set(key, value)\<close> of the missing configuration class
  replaces the value stored under the key.
\<close>

definition cfg_set :: "(jsval \<Rightarrow> jsval) \<Rightarrow> jsval \<Rightarrow> jsval \<Rightarrow> (jsval \<Rightarrow> jsval)" where
  "cfg_set c k x = c(k := x)"

text \<open>
  Modelled from the spec: \<^verbatim>\<open>update(cnt)\<close> of the missing configuration class "applies
  the full incoming config update": every property of the incoming object is stored
  under its name.
\<close>

fun cfg_update :: "(jsval \<Rightarrow> jsval) \<Rightarrow> jsval \<Rightarrow> (jsval \<Rightarrow> jsval)" where
  "cfg_update c (JObj ps) =
     (\<lambda>k. case k of
             JStr s \<Rightarrow> (case map_of ps s of Some x \<Rightarrow> x | None \<Rightarrow> c k)
           | _ \<Rightarrow> c k)"
| "cfg_update c JUndefined = c"
| "cfg_update c JNull = c"
| "cfg_update c (JBool b) = c"
| "cfg_update c (JNum n) = c"
| "cfg_update c (JStr s) = c"

text \<open>
  The result of one call of the router: its trace, the exception that ended it, and the
  configuration store afterwards.
\<close>

record outcome =
  acts :: "action list"
  thrown :: "js_error option"
  conf :: "jsval \<Rightarrow> jsval"

definition returns :: "app \<Rightarrow> action list \<Rightarrow> outcome" where
  "returns a as = \<lparr>acts = as, thrown = None, conf = config a\<rparr>"

definition throws :: "app \<Rightarrow> action list \<Rightarrow> js_error \<Rightarrow> outcome" where
  "throws a as e = \<lparr>acts = as, thrown = Some e, conf = config a\<rparr>"

subsection \<open>send\<close>

text \<open>
  \<^verbatim>\<open>send(command, content = {})\<close> asks the window object for the browser window and
  hands \<^verbatim>\<open>{command, content}\<close> to its renderer. The default value replaces a content
  that is \<^verbatim>\<open>undefined\<close>.
\<close>

definition send :: "string \<Rightarrow> jsval \<Rightarrow> action list" where
  "send command content =
     [Call Window ''getWindow'' [],
      Send command (if content = JUndefined then JObj [] else content)]"

subsection \<open>handleEvent\<close>

text \<open>The labels of the \<^verbatim>\<open>switch\<close>, in the order of the source.\<close>

definition commands :: "string list" where
  "commands =
     [''get-paths'', ''file-get-quicklook'', ''file-get'', ''dir-select'',
      ''file-modified'', ''file-new'', ''dir-new'', ''file-save'', ''file-autosave'',
      ''file-revert'', ''dir-open'', ''file-delete'', ''dir-delete'', ''file-search'',
      ''toggle-theme'', ''toggle-snippets'', ''export'', ''dir-rename'', ''file-rename'',
      ''request-move'', ''get-preferences'', ''update-config'', ''config-get'',
      ''config-get-env'', ''typo-request-lang'', ''typo-request-aff'',
      ''typo-request-dic'']"

text \<open>
  \<^verbatim>\<open>file-delete\<close> and \<^verbatim>\<open>dir-delete\<close>: remove the entity named by \<^verbatim>\<open>cnt.hash\<close> when
  the content has that property, else the current one when the accessor does not
  answer \<^verbatim>\<open>null\<close> (\<^verbatim>\<open>!= null\<close> is false for \<^verbatim>\<open>undefined\<close> too).
\<close>

definition remove_entity :: "app \<Rightarrow> string \<Rightarrow> string \<Rightarrow> jsval \<Rightarrow> jsval \<Rightarrow> outcome" where
  "remove_entity a remove current cur cnt =
     (case has_own_property cnt ''hash'' of
        Inl e \<Rightarrow> throws a [] e
      | Inr True \<Rightarrow>
          (case get_prop cnt ''hash'' of
             Inl e \<Rightarrow> throws a [] e
           | Inr h \<Rightarrow> returns a [Call Controller remove [h]])
      | Inr False \<Rightarrow>
          (if \<not> nullish cur
           then returns a [Call Controller current [], Call Controller remove []]
           else returns a [Call Controller current []]))"

text \<open>
  \<^verbatim>\<open>toggle-theme\<close> and \<^verbatim>\<open>toggle-snippets\<close>:
  \<^verbatim>\<open>getConfig().set(key, !getConfig().get(key))\<close>. The receiver of \<^verbatim>\<open>set\<close> is
  evaluated before its argument.
\<close>

definition toggle :: "app \<Rightarrow> string \<Rightarrow> outcome" where
  "toggle a key =
     (let flipped = JBool (\<not> truthy (cfg_get (config a) (JStr key)))
      in \<lparr>acts = [Call Controller ''getConfig'' [],
                  Call Controller ''getConfig'' [],
                  Call Config ''get'' [JStr key],
                  Call Config ''set'' [JStr key, flipped]],
          thrown = None,
          conf = cfg_set (config a) (JStr key) flipped\<rparr>)"

text \<open>
  One comparison of \<^verbatim>\<open>update-config\<close>: \<^verbatim>\<open>if(x != getConfig().get(key))
  this.send(reply, 'no-emit')\<close>, with \<open>x\<close> already read from the content.
\<close>

definition reflect :: "(jsval \<Rightarrow> jsval \<Rightarrow> bool) \<Rightarrow> app \<Rightarrow> jsval \<Rightarrow> string \<Rightarrow> string \<Rightarrow> action list" where
  "reflect co a x key reply =
     [Call Controller ''getConfig'' [], Call Config ''get'' [JStr key]] @
     (if \<not> loose_eq co x (cfg_get (config a) (JStr key))
      then send reply (JStr ''no-emit'') else [])"

definition update_config :: "(jsval \<Rightarrow> jsval \<Rightarrow> bool) \<Rightarrow> app \<Rightarrow> jsval \<Rightarrow> outcome" where
  "update_config co a cnt =
     (case get_prop cnt ''darkTheme'' of
        Inl e \<Rightarrow> throws a [] e
      | Inr dark \<Rightarrow>
          (case get_prop cnt ''snippets'' of
             Inl e \<Rightarrow> throws a (reflect co a dark ''darkTheme'' ''toggle-theme'') e
           | Inr snip \<Rightarrow>
               \<lparr>acts = reflect co a dark ''darkTheme'' ''toggle-theme'' @
                        reflect co a snip ''snippets'' ''toggle-snippets'' @
                        [Call Controller ''getConfig'' [], Call Config ''update'' [cnt]],
                thrown = None,
                conf = cfg_update (config a) cnt\<rparr>))"

text \<open>
  \<^verbatim>\<open>file-search\<close>: \<^verbatim>\<open>getPaths()\<close> is called before \<^verbatim>\<open>cnt.hash\<close> is read, so a
  content without properties throws after that call.
\<close>

definition file_search :: "app \<Rightarrow> jsval \<Rightarrow> outcome" where
  "file_search a cnt =
     (case get_prop cnt ''hash'' of
        Inl e \<Rightarrow> throws a [Call Controller ''getPaths'' []] e
      | Inr h \<Rightarrow>
          (case get_prop cnt ''terms'' of
             Inl e \<Rightarrow>
               throws a [Call Controller ''getPaths'' [],
                         Call PathTree ''findFile'' [JObj [(''hash'', h)]]] e
           | Inr t \<Rightarrow>
               returns a
                 ([Call Controller ''getPaths'' [],
                   Call PathTree ''findFile'' [JObj [(''hash'', h)]],
                   Call FoundFile ''search'' [t]] @
                  send ''file-search-result''
                    (JObj [(''hash'', h), (''result'', search a h t)]))))"

text \<open>
  \<^verbatim>\<open>get-preferences\<close>: the copy of the configuration gets the property
  \<^verbatim>\<open>supportedLangs\<close> and is sent. Each of the two lines asks the controller for the
  configuration object again.
\<close>

definition get_preferences :: "app \<Rightarrow> outcome" where
  "get_preferences a =
     returns a
       ([Call Controller ''getConfig'' [],
         Call Config ''getConfig'' [],
         Call Controller ''getConfig'' [],
         Call Config ''getSupportedLangs'' []] @
        send ''preferences''
          (JObj (assign ''supportedLangs'' (supportedLangs a) (configCopy a))))"

text \<open>
  The \<^verbatim>\<open>switch\<close> compares \<open>cmd\<close> with each label by strict equality, so only the
  string itself selects a case; everything else, string or not, reaches \<^verbatim>\<open>default\<close>.
\<close>

definition handleEvent :: "(jsval \<Rightarrow> jsval \<Rightarrow> bool) \<Rightarrow> app \<Rightarrow> jsval \<Rightarrow> jsval \<Rightarrow> outcome" where
  "handleEvent co a cmd cnt =
     (if cmd = JStr ''get-paths'' then
        returns a (Call Controller ''getPaths'' [] # send ''paths'' (paths a))
      else if cmd = JStr ''file-get-quicklook'' then
        returns a
          ([Call Controller ''getPaths'' [],
            Call PathTree ''findFile'' [JObj [(''hash'', cnt)]],
            Call FoundFile ''withContent'' []] @
           send ''file-quicklook'' (quicklook a cnt))
      else if cmd = JStr ''file-get'' then returns a [Call Controller ''sendFile'' [cnt]]
      else if cmd = JStr ''dir-select'' then returns a [Call Controller ''selectDir'' [cnt]]
      else if cmd = JStr ''file-modified'' then returns a [Call Controller ''setModified'' []]
      else if cmd = JStr ''file-new'' then returns a [Call Controller ''newFile'' [cnt]]
      else if cmd = JStr ''dir-new'' then returns a [Call Controller ''newDir'' [cnt]]
      else if cmd = JStr ''file-save'' then returns a [Call Controller ''saveFile'' [cnt]]
      else if cmd = JStr ''file-autosave'' then returns a [Call Controller ''autoSave'' [cnt]]
      else if cmd = JStr ''file-revert'' then returns a [Call Controller ''revert'' []]
      else if cmd = JStr ''dir-open'' then returns a [Call Controller ''openDir'' []]
      else if cmd = JStr ''file-delete'' then
        remove_entity a ''removeFile'' ''getCurrentFile'' (currentFile a) cnt
      else if cmd = JStr ''dir-delete'' then
        remove_entity a ''removeDir'' ''getCurrentDir'' (currentDir a) cnt
      else if cmd = JStr ''file-search'' then file_search a cnt
      else if cmd = JStr ''toggle-theme'' then toggle a ''darkTheme''
      else if cmd = JStr ''toggle-snippets'' then toggle a ''snippets''
      else if cmd = JStr ''export'' then returns a [Call Controller ''exportFile'' [cnt]]
      else if cmd = JStr ''dir-rename'' then returns a [Call Controller ''renameDir'' [cnt]]
      else if cmd = JStr ''file-rename'' then returns a [Call Controller ''renameFile'' [cnt]]
      else if cmd = JStr ''request-move'' then returns a [Call Controller ''requestMove'' [cnt]]
      else if cmd = JStr ''get-preferences'' then get_preferences a
      else if cmd = JStr ''update-config'' then update_config co a cnt
      else if cmd = JStr ''config-get'' then
        returns a
          ([Call Controller ''getConfig'' [], Call Config ''get'' [cnt]] @
           send ''config'' (JObj [(''key'', cnt), (''value'', cfg_get (config a) cnt)]))
      else if cmd = JStr ''config-get-env'' then
        returns a
          ([Call Controller ''getConfig'' [], Call Config ''getEnv'' [cnt]] @
           send ''config'' (JObj [(''key'', cnt), (''value'', configEnv a cnt)]))
      else if cmd = JStr ''typo-request-lang'' then
        returns a
          ([Call Controller ''getConfig'' [], Call Config ''get'' [JStr ''spellcheck'']] @
           send ''typo-lang'' (cfg_get (config a) (JStr ''spellcheck'')))
      else if cmd = JStr ''typo-request-aff'' then
        returns a [Call Controller ''retrieveDictFile'' [JStr ''aff'', cnt]]
      else if cmd = JStr ''typo-request-dic'' then
        returns a [Call Controller ''retrieveDictFile'' [JStr ''dic'', cnt]]
      else returns a [ConsoleLog ''system.unknown_command'' cmd])"

subsection \<open>dispatch\<close>

text \<open>
  \<^verbatim>\<open>dispatch(arg)\<close>: a payload without \<^verbatim>\<open>command\<close> is reported on the console and
  dropped; a payload without \<^verbatim>\<open>content\<close> gets \<^verbatim>\<open>arg.content = {}\<close>, written into the
  payload object itself; then \<^verbatim>\<open>handleEvent(arg.command, arg.content)\<close> runs. The first
  component of the result is the payload object as the call leaves it.
\<close>

definition dispatch :: "(jsval \<Rightarrow> jsval \<Rightarrow> bool) \<Rightarrow> app \<Rightarrow> jsval \<Rightarrow> jsval \<times> outcome" where
  "dispatch co a arg =
     (case has_own_property arg ''command'' of
        Inl e \<Rightarrow> (arg, throws a [] e)
      | Inr False \<Rightarrow> (arg, returns a [ConsoleError ''system.no_command'' arg])
      | Inr True \<Rightarrow>
          (case has_own_property arg ''content'' of
             Inl e \<Rightarrow> (arg, throws a [] e)
           | Inr has_content \<Rightarrow>
               (case (if has_content then Inr arg else set_prop arg ''content'' (JObj [])) of
                  Inl e \<Rightarrow> (arg, throws a [] e)
                | Inr arg' \<Rightarrow>
                    (case get_prop arg' ''command'' of
                       Inl e \<Rightarrow> (arg', throws a [] e)
                     | Inr cmd \<Rightarrow>
                         (case get_prop arg' ''content'' of
                            Inl e \<Rightarrow> (arg', throws a [] e)
                          | Inr cnt \<Rightarrow> (arg', handleEvent co a cmd cnt))))))"

subsection \<open>Observations on a trace\<close>

fun controller_calls :: "action list \<Rightarrow> (string \<times> jsval list) list" where
  "controller_calls [] = []"
| "controller_calls (Call Controller m xs # as) = (m, xs) # controller_calls as"
| "controller_calls (x # as) = controller_calls as"

fun sent :: "action list \<Rightarrow> (string \<times> jsval) list" where
  "sent [] = []"
| "sent (Send c x # as) = (c, x) # sent as"
| "sent (x # as) = sent as"

text \<open>The controller methods that only report: the accessors the router reads through.\<close>

definition accessors :: "string list" where
  "accessors = [''getPaths'', ''getConfig'', ''getCurrentFile'', ''getCurrentDir'']"

definition mutator_calls :: "action list \<Rightarrow> (string \<times> jsval list) list" where
  "mutator_calls as = filter (\<lambda>c. fst c \<notin> set accessors) (controller_calls as)"

subsection \<open>A sample application state\<close>

definition sample_config :: "jsval \<Rightarrow> jsval" where
  "sample_config =
     (\<lambda>k. if k = JStr ''darkTheme'' then JBool False
          else if k = JStr ''snippets'' then JBool False
          else JUndefined)"

definition sample_app :: app where
  "sample_app =
     \<lparr>paths = JObj [], quicklook = (\<lambda>h. JObj []), search = (\<lambda>h t. JObj []),
      currentFile = JObj [(''hash'', JNum 7)], currentDir = JNull,
      config = sample_config, configCopy = [], supportedLangs = JObj [],
      configEnv = (\<lambda>k. JUndefined)\<rparr>"

definition no_coercion :: "jsval \<Rightarrow> jsval \<Rightarrow> bool" where
  "no_coercion x y = False"


section \<open>Properties\<close>

subsection \<open>Properties of the value operations\<close>

lemma digit_char:
  assumes "(m::nat) < 10"
  shows "''0123456789'' ! m \<in> set ''0123456789''"
  by (rule nth_mem) (use assms in simp)

lemma show_nat_digits: "set (show_nat n) \<subseteq> set ''0123456789''"
proof (induction n rule: show_nat.induct)
  case (1 n)
  show ?case
  proof (cases "n < 10")
    case True
    then show ?thesis using digit_char [of n] by (simp add: show_nat.simps [of n])
  next
    case False
    have "n mod 10 < 10" by simp
    then have "''0123456789'' ! (n mod 10) \<in> set ''0123456789''" by (rule digit_char)
    with False 1 show ?thesis by (simp add: show_nat.simps [of n])
  qed
qed

lemma index_props_keys: "k \<in> fst ` set (index_props s i) \<Longrightarrow> set k \<subseteq> set ''0123456789''"
proof (induction s arbitrary: i)
  case Nil
  then show ?case by simp
next
  case (Cons c cs)
  then have "k = show_nat i \<or> k \<in> fst ` set (index_props cs (Suc i))" by auto
  then show ?case using Cons.IH [of "Suc i"] show_nat_digits [of i] by blast
qed

text \<open>The own properties of a string are \<^verbatim>\<open>length\<close> and names made of digits.\<close>

lemma string_own_keys:
  assumes "k \<in> set (own_keys (JStr s))"
  shows "k = ''length'' \<or> set k \<subseteq> set ''0123456789''"
proof -
  from assms have "k = ''length'' \<or> k \<in> fst ` set (index_props s 0)"
    by (auto simp: own_keys_def)
  then show ?thesis using index_props_keys [of k s 0] by blast
qed

text \<open>So a value with an own property of any other name is an object.\<close>

lemma object_with_key:
  assumes "k \<in> set (own_keys v)" and "k \<noteq> ''length''" and "\<not> set k \<subseteq> set ''0123456789''"
  obtains ps where "v = JObj ps" and "k \<in> fst ` set ps"
  using assms string_own_keys [of k] by (cases v) (auto simp: own_keys_def)

lemma map_of_assign: "map_of (assign k x ps) = (map_of ps)(k \<mapsto> x)"
  by (induction ps) (auto simp: fun_eq_iff)

lemma assign_fresh: "k \<notin> fst ` set ps \<Longrightarrow> assign k x ps = ps @ [(k, x)]"
  by (induction ps) auto

lemma own_value_assign:
  "own_value (JObj (assign k x ps)) k' = (if k' = k then x else own_value (JObj ps) k')"
  by (simp add: own_value_def map_of_assign)

lemma has_own_property_True:
  assumes "''hasOwnProperty'' \<notin> set (own_keys v)" and "k \<in> set (own_keys v)"
  shows "has_own_property v k = Inr True"
proof -
  from assms(2) have "\<not> nullish v" by (auto simp: nullish_def own_keys_def)
  with assms show ?thesis by (simp add: has_own_property_def)
qed

lemma has_own_property_False:
  assumes "\<not> nullish v" and "''hasOwnProperty'' \<notin> set (own_keys v)" and "k \<notin> set (own_keys v)"
  shows "has_own_property v k = Inr False"
  using assms by (simp add: has_own_property_def)

text \<open>On two booleans the loose equality is equality.\<close>

lemma loose_eq_bool: "loose_eq co (JBool x) (JBool y) = (x = y)"
  by (simp add: loose_eq_def nullish_def)

subsection \<open>Properties of traces\<close>

lemma sent_append: "sent (xs @ ys) = sent xs @ sent ys"
  by (induction xs rule: sent.induct) simp_all

lemma controller_calls_append:
  "controller_calls (xs @ ys) = controller_calls xs @ controller_calls ys"
  by (induction xs rule: controller_calls.induct) simp_all

lemma controller_calls_send: "controller_calls (send c x) = []"
  by (simp add: send_def)

subsection \<open>A payload that carries a command\<close>

text \<open>
  When the presence test can run and finds \<^verbatim>\<open>command\<close>, the payload is an object and
  \<^verbatim>\<open>handleEvent\<close> runs on its command and on its content, or on a fresh \<^verbatim>\<open>{}\<close> that
  \<^verbatim>\<open>dispatch\<close> has just stored in the payload.
\<close>

lemma dispatch_with_command:
  assumes "''hasOwnProperty'' \<notin> set (own_keys arg)" and "''command'' \<in> set (own_keys arg)"
  shows "dispatch co a arg =
           (if ''content'' \<in> set (own_keys arg)
            then (arg, handleEvent co a (own_value arg ''command'') (own_value arg ''content''))
            else (JObj (own_props arg @ [(''content'', JObj [])]),
                  handleEvent co a (own_value arg ''command'') (JObj [])))"
proof -
  from assms(2) obtain ps where arg: "arg = JObj ps" and "''command'' \<in> fst ` set ps"
    by (rule object_with_key) auto
  have cmd: "has_own_property arg ''command'' = Inr True"
    using assms by (rule has_own_property_True)
  show ?thesis
  proof (cases "''content'' \<in> set (own_keys arg)")
    case True
    with assms(1) have "has_own_property arg ''content'' = Inr True"
      by (rule has_own_property_True)
    with cmd True show ?thesis
      by (simp add: dispatch_def arg get_prop_def nullish_def)
  next
    case False
    with assms(1) have "has_own_property arg ''content'' = Inr False"
      by (simp add: has_own_property_False arg nullish_def)
    then have "dispatch co a arg =
        (JObj (assign ''content'' (JObj []) ps),
         handleEvent co a (own_value arg ''command'') (JObj []))"
      using cmd by (simp add: dispatch_def arg get_prop_def nullish_def own_value_assign)
    moreover from False have "assign ''content'' (JObj []) ps = ps @ [(''content'', JObj [])]"
      by (simp add: assign_fresh arg own_keys_def)
    ultimately show ?thesis using False by (simp add: arg)
  qed
qed

text \<open>Every value that is not one of the labels reaches the \<^verbatim>\<open>default\<close> case.\<close>

lemma handleEvent_default:
  assumes "cmd \<notin> JStr ` set commands"
  shows "handleEvent co a cmd cnt = returns a [ConsoleLog ''system.unknown_command'' cmd]"
  using assms unfolding commands_def handleEvent_def by simp

subsection \<open>Payloads without a command\<close>

text \<open>
  C1 (as amended). A payload that is neither \<^verbatim>\<open>null\<close> nor \<^verbatim>\<open>undefined\<close>, that has no
  own property named \<^verbatim>\<open>hasOwnProperty\<close> and no own property \<^verbatim>\<open>command\<close>, is
  reported with one \<^verbatim>\<open>console.error\<close> line and dropped: \<^verbatim>\<open>dispatch\<close> returns normally,
  calls no collaborator, sends nothing, and leaves the payload and the configuration as
  they were. This covers every object without \<^verbatim>\<open>command\<close> that does not shadow the
  test method, and every boolean, number and string.
\<close>

theorem dispatch_without_command:
  assumes "\<not> nullish arg"
    and "''hasOwnProperty'' \<notin> set (own_keys arg)"
    and "''command'' \<notin> set (own_keys arg)"
  shows "dispatch co a arg =
           (arg, \<lparr>acts = [ConsoleError ''system.no_command'' arg], thrown = None,
                  conf = config a\<rparr>)"
  using assms by (simp add: dispatch_def has_own_property_def returns_def)

theorem dispatch_without_command_witness:
  "dispatch no_coercion sample_app (JObj [(''content'', JStr ''text'')]) =
     (JObj [(''content'', JStr ''text'')],
      \<lparr>acts = [ConsoleError ''system.no_command'' (JObj [(''content'', JStr ''text'')])],
       thrown = None, conf = config sample_app\<rparr>)"
  using dispatch_without_command [of "JObj [(''content'', JStr ''text'')]" no_coercion sample_app]
  by (simp add: nullish_def own_keys_def)

text \<open>
  The payload \<^verbatim>\<open>null\<close> has no \<^verbatim>\<open>command\<close> property, and \<^verbatim>\<open>dispatch(null)\<close> throws a
  \<^verbatim>\<open>TypeError\<close> at \<^verbatim>\<open>arg.hasOwnProperty\<close> before anything is logged.
\<close>

theorem dispatch_null_payload_throws:
  "thrown (snd (dispatch no_coercion sample_app JNull)) = Some TypeError \<and>
   acts (snd (dispatch no_coercion sample_app JNull)) = []"
  by (simp add: dispatch_def has_own_property_def nullish_def throws_def)

subsection \<open>Unknown commands\<close>

text \<open>
  C2. For every command string that is not a label of the \<^verbatim>\<open>switch\<close>, and every
  content, \<^verbatim>\<open>handleEvent\<close> writes one \<^verbatim>\<open>console.log\<close> line naming the command and does
  nothing else: no call on the controller or any other collaborator, no message to the
  renderer, no exception, the configuration unchanged.
\<close>

theorem unknown_command_only_logs:
  assumes "s \<notin> set commands"
  shows "handleEvent co a (JStr s) cnt =
           \<lparr>acts = [ConsoleLog ''system.unknown_command'' (JStr s)], thrown = None,
            conf = config a\<rparr>"
proof -
  from assms have "JStr s \<notin> JStr ` set commands" by auto
  then show ?thesis by (simp add: handleEvent_default returns_def)
qed

theorem unknown_command_only_logs_witness:
  "handleEvent no_coercion sample_app (JStr ''file-open'') (JObj [(''hash'', JNum 42)]) =
     \<lparr>acts = [ConsoleLog ''system.unknown_command'' (JStr ''file-open'')], thrown = None,
      conf = config sample_app\<rparr>"
  using unknown_command_only_logs [of "''file-open''" no_coercion sample_app "JObj [(''hash'', JNum 42)]"]
  by (simp add: commands_def)

subsection \<open>The default content\<close>

text \<open>
  C3 (as amended). For every payload that has a \<^verbatim>\<open>command\<close> property, no
  \<^verbatim>\<open>content\<close> property, and no own property named \<^verbatim>\<open>hasOwnProperty\<close>, \<^verbatim>\<open>dispatch\<close>
  does exactly what \<^verbatim>\<open>handleEvent\<close> does on the payload's command and the empty object
  \<^verbatim>\<open>{}\<close>.
\<close>

theorem dispatch_default_content:
  assumes "''hasOwnProperty'' \<notin> set (own_keys arg)"
    and "''command'' \<in> set (own_keys arg)"
    and "''content'' \<notin> set (own_keys arg)"
  shows "snd (dispatch co a arg) = handleEvent co a (own_value arg ''command'') (JObj [])"
  using assms by (simp add: dispatch_with_command)

theorem dispatch_default_content_witness:
  "snd (dispatch no_coercion sample_app (JObj [(''command'', JStr ''file-new'')])) =
     handleEvent no_coercion sample_app (JStr ''file-new'') (JObj []) \<and>
   acts (handleEvent no_coercion sample_app (JStr ''file-new'') (JObj [])) =
     [Call Controller ''newFile'' [JObj []]]"
  using dispatch_default_content [of "JObj [(''command'', JStr ''file-new'')]" no_coercion sample_app]
  by (simp add: own_keys_def own_value_def handleEvent_def returns_def)

text \<open>
  The payload \<^verbatim>\<open>{command: 'file-new', hasOwnProperty: 1}\<close> has a command and no
  content, yet \<^verbatim>\<open>arg.hasOwnProperty('command')\<close> calls the number 1: \<^verbatim>\<open>dispatch\<close> throws
  and \<^verbatim>\<open>handleEvent\<close>, which would have called \<^verbatim>\<open>newFile({})\<close>, never runs.
\<close>

theorem dispatch_shadowed_test_throws:
  "snd (dispatch no_coercion sample_app
          (JObj [(''command'', JStr ''file-new''), (''hasOwnProperty'', JNum 1)])) \<noteq>
     handleEvent no_coercion sample_app (JStr ''file-new'') (JObj []) \<and>
   snd (dispatch no_coercion sample_app
          (JObj [(''command'', JStr ''file-new''), (''hasOwnProperty'', JNum 1)])) =
     \<lparr>acts = [], thrown = Some TypeError, conf = config sample_app\<rparr> \<and>
   acts (handleEvent no_coercion sample_app (JStr ''file-new'') (JObj [])) =
     [Call Controller ''newFile'' [JObj []]]"
  by (simp add: dispatch_def has_own_property_def nullish_def own_keys_def throws_def
      handleEvent_def returns_def)

subsection \<open>Deleting a file\<close>

lemma remove_entity_calls:
  assumes "\<not> nullish cnt" and "''hasOwnProperty'' \<notin> set (own_keys cnt)"
  shows "remove_entity a remove current cur cnt =
           returns a
             (if ''hash'' \<in> set (own_keys cnt) then [Call Controller remove [own_value cnt ''hash'']]
              else if \<not> nullish cur then [Call Controller current [], Call Controller remove []]
              else [Call Controller current []])"
  using assms by (simp add: remove_entity_def has_own_property_def get_prop_def)

text \<open>
  C4 (as amended). Take a payload with the command \<^verbatim>\<open>file-delete\<close> and no own
  property named \<^verbatim>\<open>hasOwnProperty\<close>, whose content (the payload's \<^verbatim>\<open>content\<close>, or
  \<^verbatim>\<open>{}\<close> when it has none) is neither \<^verbatim>\<open>null\<close> nor \<^verbatim>\<open>undefined\<close> and has no own
  property named \<^verbatim>\<open>hasOwnProperty\<close> either. If the content has a \<^verbatim>\<open>hash\<close> property, the
  only controller call is \<^verbatim>\<open>removeFile(hash)\<close>. Otherwise the controller is asked
  \<^verbatim>\<open>getCurrentFile()\<close>, and \<^verbatim>\<open>removeFile()\<close> without argument follows exactly when the
  answer is neither \<^verbatim>\<open>null\<close> nor \<^verbatim>\<open>undefined\<close>. In every case nothing is sent to the
  renderer and \<^verbatim>\<open>dispatch\<close> returns normally.
\<close>

theorem file_delete_dispatch:
  assumes "''hasOwnProperty'' \<notin> set (own_keys arg)"
    and "''command'' \<in> set (own_keys arg)"
    and "own_value arg ''command'' = JStr ''file-delete''"
    and "cnt = (if ''content'' \<in> set (own_keys arg) then own_value arg ''content'' else JObj [])"
    and "\<not> nullish cnt"
    and "''hasOwnProperty'' \<notin> set (own_keys cnt)"
  shows "controller_calls (acts (snd (dispatch co a arg))) =
           (if ''hash'' \<in> set (own_keys cnt) then [(''removeFile'', [own_value cnt ''hash''])]
            else if \<not> nullish (currentFile a)
              then [(''getCurrentFile'', []), (''removeFile'', [])]
            else [(''getCurrentFile'', [])]) \<and>
         sent (acts (snd (dispatch co a arg))) = [] \<and>
         thrown (snd (dispatch co a arg)) = None"
proof -
  have "snd (dispatch co a arg) = handleEvent co a (JStr ''file-delete'') cnt"
    using assms(1-4) by (simp add: dispatch_with_command)
  also have "\<dots> = remove_entity a ''removeFile'' ''getCurrentFile'' (currentFile a) cnt"
    by (simp add: handleEvent_def)
  finally show ?thesis
    using assms(5,6) by (simp add: remove_entity_calls returns_def)
qed

theorem file_delete_dispatch_witness:
  "controller_calls (acts (snd (dispatch no_coercion sample_app
       (JObj [(''command'', JStr ''file-delete''), (''content'', JObj [(''hash'', JNum 42)])])))) =
     [(''removeFile'', [JNum 42])] \<and>
   controller_calls (acts (snd (dispatch no_coercion sample_app
       (JObj [(''command'', JStr ''file-delete''), (''content'', JObj [])])))) =
     [(''getCurrentFile'', []), (''removeFile'', [])] \<and>
   controller_calls (acts (snd (dispatch no_coercion (sample_app\<lparr>currentFile := JNull\<rparr>)
       (JObj [(''command'', JStr ''file-delete''), (''content'', JObj [])])))) =
     [(''getCurrentFile'', [])]"
  using
    file_delete_dispatch [of "JObj [(''command'', JStr ''file-delete''), (''content'', JObj [(''hash'', JNum 42)])]"
      "JObj [(''hash'', JNum 42)]" no_coercion sample_app]
    file_delete_dispatch [of "JObj [(''command'', JStr ''file-delete''), (''content'', JObj [])]"
      "JObj []" no_coercion sample_app]
    file_delete_dispatch [of "JObj [(''command'', JStr ''file-delete''), (''content'', JObj [])]"
      "JObj []" no_coercion "sample_app\<lparr>currentFile := JNull\<rparr>"]
  by (simp add: own_keys_def own_value_def nullish_def sample_app_def)

text \<open>
  The message \<^verbatim>\<open>{command: 'file-delete', content: null}\<close> has no hash in its content
  and the sample controller has a current file, yet \<^verbatim>\<open>removeFile\<close> is not called:
  \<^verbatim>\<open>cnt.hasOwnProperty('hash')\<close> throws on \<^verbatim>\<open>null\<close>.
\<close>

theorem file_delete_null_content_throws:
  "snd (dispatch no_coercion sample_app
          (JObj [(''command'', JStr ''file-delete''), (''content'', JNull)])) =
     \<lparr>acts = [], thrown = Some TypeError, conf = config sample_app\<rparr> \<and>
   \<not> nullish (currentFile sample_app)"
  by (simp add: dispatch_def has_own_property_def nullish_def own_keys_def own_value_def
      get_prop_def handleEvent_def remove_entity_def throws_def sample_app_def)

subsection \<open>Updating the configuration\<close>

lemma sent_reflect:
  "sent (reflect co a x key reply) =
     (if \<not> loose_eq co x (config a (JStr key)) then [(reply, JStr ''no-emit'')] else [])"
  by (simp add: reflect_def send_def cfg_get_def)

lemma reflect_no_update: "Call Config ''update'' xs \<notin> set (reflect co a x key reply)"
  by (simp add: reflect_def send_def)

text \<open>
  C5 (as amended). Take a payload with the command \<^verbatim>\<open>update-config\<close> and no own
  property named \<^verbatim>\<open>hasOwnProperty\<close>, whose content (the payload's \<^verbatim>\<open>content\<close>, or
  \<^verbatim>\<open>{}\<close> when it has none) is neither \<^verbatim>\<open>null\<close> nor \<^verbatim>\<open>undefined\<close>. The
  router compares the content's \<^verbatim>\<open>darkTheme\<close> and \<^verbatim>\<open>snippets\<close> with the configuration's
  current values by \<^verbatim>\<open>!=\<close>. The messages it sends are exactly \<^verbatim>\<open>toggle-theme\<close> when the
  first pair is unequal, then \<^verbatim>\<open>toggle-snippets\<close> when the second pair is unequal, each
  with the content \<^verbatim>\<open>'no-emit'\<close>. The call \<^verbatim>\<open>update(content)\<close> on the configuration is the
  last step and happens once, so every reply precedes it; \<^verbatim>\<open>dispatch\<close> returns normally.
  On booleans \<^verbatim>\<open>!=\<close> is plain inequality (\<open>loose_eq_bool\<close>).
\<close>

theorem update_config_dispatch:
  assumes "''hasOwnProperty'' \<notin> set (own_keys arg)"
    and "''command'' \<in> set (own_keys arg)"
    and "own_value arg ''command'' = JStr ''update-config''"
    and "cnt = (if ''content'' \<in> set (own_keys arg) then own_value arg ''content'' else JObj [])"
    and "\<not> nullish cnt"
  shows "sent (acts (snd (dispatch co a arg))) =
           (if \<not> loose_eq co (own_value cnt ''darkTheme'') (config a (JStr ''darkTheme''))
            then [(''toggle-theme'', JStr ''no-emit'')] else []) @
           (if \<not> loose_eq co (own_value cnt ''snippets'') (config a (JStr ''snippets''))
            then [(''toggle-snippets'', JStr ''no-emit'')] else []) \<and>
         last (acts (snd (dispatch co a arg))) = Call Config ''update'' [cnt] \<and>
         Call Config ''update'' [cnt] \<notin> set (butlast (acts (snd (dispatch co a arg)))) \<and>
         thrown (snd (dispatch co a arg)) = None \<and>
         conf (snd (dispatch co a arg)) = cfg_update (config a) cnt"
proof -
  let ?dark = "reflect co a (own_value cnt ''darkTheme'') ''darkTheme'' ''toggle-theme''"
  let ?snip = "reflect co a (own_value cnt ''snippets'') ''snippets'' ''toggle-snippets''"
  have "snd (dispatch co a arg) = handleEvent co a (JStr ''update-config'') cnt"
    using assms(1-4) by (simp add: dispatch_with_command)
  also have "\<dots> = update_config co a cnt"
    by (simp add: handleEvent_def)
  also have "\<dots> =
      \<lparr>acts = (?dark @ ?snip @ [Call Controller ''getConfig'' []]) @ [Call Config ''update'' [cnt]],
       thrown = None, conf = cfg_update (config a) cnt\<rparr>"
    using assms(5) by (simp add: update_config_def get_prop_def)
  finally have r: "snd (dispatch co a arg) =
      \<lparr>acts = (?dark @ ?snip @ [Call Controller ''getConfig'' []]) @ [Call Config ''update'' [cnt]],
       thrown = None, conf = cfg_update (config a) cnt\<rparr>" .
  have "Call Config ''update'' [cnt] \<notin> set (?dark @ ?snip @ [Call Controller ''getConfig'' []])"
    by (simp add: reflect_no_update)
  then show ?thesis
    unfolding r by (simp add: sent_append sent_reflect del: append_assoc)
qed

theorem update_config_dispatch_witness:
  "sent (acts (snd (dispatch no_coercion sample_app
       (JObj [(''command'', JStr ''update-config''),
              (''content'', JObj [(''darkTheme'', JBool True), (''snippets'', JBool False)])])))) =
     [(''toggle-theme'', JStr ''no-emit'')] \<and>
   last (acts (snd (dispatch no_coercion sample_app
       (JObj [(''command'', JStr ''update-config''),
              (''content'', JObj [(''darkTheme'', JBool True), (''snippets'', JBool False)])])))) =
     Call Config ''update'' [JObj [(''darkTheme'', JBool True), (''snippets'', JBool False)]]"
  using update_config_dispatch [of
      "JObj [(''command'', JStr ''update-config''),
             (''content'', JObj [(''darkTheme'', JBool True), (''snippets'', JBool False)])]"
      "JObj [(''darkTheme'', JBool True), (''snippets'', JBool False)]" no_coercion sample_app]
  by (simp add: own_keys_def own_value_def nullish_def sample_app_def sample_config_def
      loose_eq_def)

text \<open>
  The message \<^verbatim>\<open>{command: 'update-config', content: null}\<close>: \<^verbatim>\<open>cnt.darkTheme\<close> throws
  before anything is compared, no reply is sent and \<^verbatim>\<open>update\<close> is never called.
\<close>

theorem update_config_null_content_throws:
  "snd (dispatch no_coercion sample_app
          (JObj [(''command'', JStr ''update-config''), (''content'', JNull)])) =
     \<lparr>acts = [], thrown = Some TypeError, conf = config sample_app\<rparr>"
  by (simp add: dispatch_def has_own_property_def nullish_def own_keys_def own_value_def
      get_prop_def handleEvent_def update_config_def throws_def)

subsection \<open>Toggling the theme\<close>





subsection \<open>What dispatch does to the payload\<close>

text \<open>
  C7 (as amended). \<^verbatim>\<open>dispatch\<close> changes the payload in one case only: a payload with a
  \<^verbatim>\<open>command\<close> property, without a \<^verbatim>\<open>content\<close> property (and on which the presence test
  can run) gets the new property \<^verbatim>\<open>content\<close> holding \<^verbatim>\<open>{}\<close>, after its other properties,
  which stay as they are. Every other payload is left exactly as it came.
\<close>

theorem dispatch_payload_after:
  "fst (dispatch co a arg) =
     (if ''hasOwnProperty'' \<notin> set (own_keys arg) \<and> ''command'' \<in> set (own_keys arg) \<and>
         ''content'' \<notin> set (own_keys arg)
      then JObj (own_props arg @ [(''content'', JObj [])])
      else arg)"
proof (cases "''hasOwnProperty'' \<notin> set (own_keys arg) \<and> ''command'' \<in> set (own_keys arg)")
  case True
  then show ?thesis by (simp add: dispatch_with_command)
next
  case False
  then have "has_own_property arg ''command'' \<noteq> Inr True"
    by (auto simp: has_own_property_def)
  then have "fst (dispatch co a arg) = arg"
    by (simp add: dispatch_def split: sum.splits bool.splits)
  with False show ?thesis by auto
qed

theorem dispatch_payload_after_witness:
  "fst (dispatch no_coercion sample_app
          (JObj [(''command'', JStr ''file-save''), (''content'', JStr ''text'')])) =
     JObj [(''command'', JStr ''file-save''), (''content'', JStr ''text'')]"
  using dispatch_payload_after [of no_coercion sample_app
      "JObj [(''command'', JStr ''file-save''), (''content'', JStr ''text'')]"]
  by (simp add: own_keys_def)

text \<open>
  The payload \<^verbatim>\<open>{command: 'file-modified'}\<close> comes back from \<^verbatim>\<open>dispatch\<close> as
  \<^verbatim>\<open>{command: 'file-modified', content: {}}\<close>.
\<close>

theorem dispatch_adds_content:
  "fst (dispatch no_coercion sample_app (JObj [(''command'', JStr ''file-modified'')])) =
     JObj [(''command'', JStr ''file-modified''), (''content'', JObj [])] \<and>
   fst (dispatch no_coercion sample_app (JObj [(''command'', JStr ''file-modified'')])) \<noteq>
     JObj [(''command'', JStr ''file-modified'')]"
  by (simp add: dispatch_def has_own_property_def nullish_def own_keys_def get_prop_def)

subsection \<open>How many controller calls one dispatch makes\<close>

lemma mutator_calls_le: "length (mutator_calls xs) \<le> length (controller_calls xs)"
  by (simp add: mutator_calls_def)

lemma controller_calls_reflect:
  "controller_calls (reflect co a x key reply) = [(''getConfig'', [])]"
  by (simp add: reflect_def controller_calls_append controller_calls_send)

lemma remove_entity_bound:
  assumes "current \<in> set accessors"
  shows "length (controller_calls (acts (remove_entity a remove current cur cnt))) \<le> 3 \<and>
         length (mutator_calls (acts (remove_entity a remove current cur cnt))) \<le> 1"
proof (cases "has_own_property cnt ''hash''")
  case (Inl e)
  then show ?thesis by (simp add: remove_entity_def throws_def mutator_calls_def)
next
  case (Inr h)
  show ?thesis
  proof (cases h)
    case True
    with Inr show ?thesis
      by (cases "get_prop cnt ''hash''")
        (simp_all add: remove_entity_def throws_def returns_def mutator_calls_def)
  next
    case False
    with Inr assms show ?thesis
      by (simp add: remove_entity_def returns_def mutator_calls_def)
  qed
qed

lemma toggle_bound:
  "length (controller_calls (acts (toggle a key))) \<le> 3 \<and>
   length (mutator_calls (acts (toggle a key))) \<le> 1"
  by (simp add: toggle_def Let_def mutator_calls_def accessors_def)

lemma update_config_bound:
  "length (controller_calls (acts (update_config co a cnt))) \<le> 3 \<and>
   length (mutator_calls (acts (update_config co a cnt))) \<le> 1"
proof (cases "get_prop cnt ''darkTheme''")
  case (Inl e)
  then show ?thesis by (simp add: update_config_def throws_def mutator_calls_def)
next
  case (Inr dark)
  then show ?thesis
    by (cases "get_prop cnt ''snippets''")
      (simp_all add: update_config_def throws_def mutator_calls_def controller_calls_append
        controller_calls_reflect accessors_def)
qed

lemma file_search_bound:
  "length (controller_calls (acts (file_search a cnt))) \<le> 3 \<and>
   length (mutator_calls (acts (file_search a cnt))) \<le> 1"
proof (cases "get_prop cnt ''hash''")
  case (Inl e)
  then show ?thesis by (simp add: file_search_def throws_def mutator_calls_def accessors_def)
next
  case (Inr h)
  then show ?thesis
    by (cases "get_prop cnt ''terms''")
      (simp_all add: file_search_def throws_def returns_def mutator_calls_def
        controller_calls_append controller_calls_send accessors_def)
qed

lemma get_preferences_bound:
  "length (controller_calls (acts (get_preferences a))) \<le> 3 \<and>
   length (mutator_calls (acts (get_preferences a))) \<le> 1"
  by (simp add: get_preferences_def returns_def controller_calls_append controller_calls_send
      mutator_calls_def accessors_def)

lemma handleEvent_bound:
  "length (controller_calls (acts (handleEvent co a cmd cnt))) \<le> 3 \<and>
   length (mutator_calls (acts (handleEvent co a cmd cnt))) \<le> 1"
proof -
  define P where "P r \<longleftrightarrow> length (controller_calls (acts r)) \<le> 3 \<and>
    length (mutator_calls (acts r)) \<le> 1" for r :: outcome
  have branch: "P x \<Longrightarrow> P y \<Longrightarrow> P (if c then x else y)" for c x y
    by simp
  have one: "P (returns a [Call Controller m xs])" for m xs
    by (simp add: P_def returns_def mutator_calls_def)
  have reply: "P (returns a (Call Controller m [] # send c x))" if "m \<in> set accessors" for m c x
    using that by (simp add: P_def returns_def mutator_calls_def controller_calls_send)
  have lookup: "P (returns a ([Call Controller ''getPaths'' [], Call PathTree m xs, Call FoundFile m' ys] @ send c x))"
    for m xs m' ys c x
    by (simp add: P_def returns_def mutator_calls_def controller_calls_send accessors_def)
  have ask: "P (returns a ([Call Controller ''getConfig'' [], Call Config m xs] @ send c x))"
    for m xs c x
    by (simp add: P_def returns_def mutator_calls_def controller_calls_send accessors_def)
  have log: "P (returns a [ConsoleLog k v])" for k v
    by (simp add: P_def returns_def mutator_calls_def)
  have rmf: "P (remove_entity a ''removeFile'' ''getCurrentFile'' cur cnt)" for cur
    unfolding P_def by (rule remove_entity_bound) (simp add: accessors_def)
  have rmd: "P (remove_entity a ''removeDir'' ''getCurrentDir'' cur cnt)" for cur
    unfolding P_def by (rule remove_entity_bound) (simp add: accessors_def)
  have tog: "P (toggle a key)" for key
    unfolding P_def by (rule toggle_bound)
  have upd: "P (update_config co a cnt)"
    unfolding P_def by (rule update_config_bound)
  have srch: "P (file_search a cnt)"
    unfolding P_def by (rule file_search_bound)
  have prefs: "P (get_preferences a)"
    unfolding P_def by (rule get_preferences_bound)
  have paths: "''getPaths'' \<in> set accessors"
    by (simp add: accessors_def)
  have "P (handleEvent co a cmd cnt)"
    unfolding handleEvent_def
    by (intro branch one reply lookup ask log rmf rmd tog upd srch prefs paths)
  then show ?thesis by (simp add: P_def)
qed

lemma has_own_property_TrueD:
  assumes "has_own_property v k = Inr True"
  shows "''hasOwnProperty'' \<notin> set (own_keys v) \<and> k \<in> set (own_keys v)"
  using assms by (auto simp: has_own_property_def split: if_splits)

text \<open>
  C8 (as amended). One \<^verbatim>\<open>dispatch\<close> calls at most three methods of the controller, and
  at most one of them is not an accessor (\<^verbatim>\<open>getPaths\<close>, \<^verbatim>\<open>getConfig\<close>,
  \<^verbatim>\<open>getCurrentFile\<close>, \<^verbatim>\<open>getCurrentDir\<close>). Calls on the objects the accessors return (the
  configuration, the path tree, a file) and on the window are not calls on the
  controller.
\<close>

theorem dispatch_controller_calls:
  "length (controller_calls (acts (snd (dispatch co a arg)))) \<le> 3 \<and>
   length (mutator_calls (acts (snd (dispatch co a arg)))) \<le> 1"
proof (cases "has_own_property arg ''command''")
  case (Inl e)
  then show ?thesis by (simp add: dispatch_def throws_def mutator_calls_def)
next
  case (Inr present)
  show ?thesis
  proof (cases present)
    case False
    with Inr show ?thesis by (simp add: dispatch_def returns_def mutator_calls_def)
  next
    case True
    with Inr have "''hasOwnProperty'' \<notin> set (own_keys arg) \<and> ''command'' \<in> set (own_keys arg)"
      by (simp add: has_own_property_TrueD)
    then have "snd (dispatch co a arg) =
        handleEvent co a (own_value arg ''command'')
          (if ''content'' \<in> set (own_keys arg) then own_value arg ''content'' else JObj [])"
      by (simp add: dispatch_with_command)
    then show ?thesis by (simp only: handleEvent_bound)
  qed
qed

theorem dispatch_controller_calls_witness:
  "length (controller_calls (acts (snd (dispatch no_coercion sample_app
      (JObj [(''command'', JStr ''update-config''), (''content'', JObj [])]))))) = 3 \<and>
   length (mutator_calls (acts (snd (dispatch no_coercion sample_app
      (JObj [(''command'', JStr ''file-save''), (''content'', JStr ''text'')]))))) = 1"
  using dispatch_controller_calls [of no_coercion sample_app
      "JObj [(''command'', JStr ''update-config''), (''content'', JObj [])]"]
  by (simp add: dispatch_def has_own_property_def nullish_def own_keys_def own_value_def
      get_prop_def handleEvent_def update_config_def reflect_def send_def returns_def
      mutator_calls_def accessors_def)

text \<open>
  \<^verbatim>\<open>{command: 'file-delete', content: {}}\<close> with a current file: the controller is
  called twice, \<^verbatim>\<open>getCurrentFile()\<close> and then \<^verbatim>\<open>removeFile()\<close>.
\<close>

theorem file_delete_two_controller_calls:
  "controller_calls (acts (snd (dispatch no_coercion sample_app
      (JObj [(''command'', JStr ''file-delete''), (''content'', JObj [])])))) =
     [(''getCurrentFile'', []), (''removeFile'', [])]"
  by (simp add: dispatch_def has_own_property_def nullish_def own_keys_def own_value_def
      get_prop_def handleEvent_def remove_entity_def returns_def sample_app_def)


subsection \<open>A command that is not a command string\<close>

text \<open>
  C9 (as amended). \<^verbatim>\<open>dispatch\<close> tests that the payload has a \<^verbatim>\<open>command\<close> property and
  nothing about its value. For every payload with a \<^verbatim>\<open>command\<close> property and no own
  property named \<^verbatim>\<open>hasOwnProperty\<close>, whose command is not one of the labels of the
  \<^verbatim>\<open>switch\<close> (any value that is not a string, \<^verbatim>\<open>null\<close> and \<^verbatim>\<open>undefined\<close> among them,
  or an unknown string), \<^verbatim>\<open>handleEvent\<close> is invoked with that value and the content,
  and it only writes the unknown-command line.
\<close>

theorem dispatch_non_command_value:
  assumes "''hasOwnProperty'' \<notin> set (own_keys arg)"
    and "''command'' \<in> set (own_keys arg)"
    and "own_value arg ''command'' \<notin> JStr ` set commands"
  shows "snd (dispatch co a arg) =
           handleEvent co a (own_value arg ''command'')
             (if ''content'' \<in> set (own_keys arg) then own_value arg ''content'' else JObj []) \<and>
         snd (dispatch co a arg) =
           \<lparr>acts = [ConsoleLog ''system.unknown_command'' (own_value arg ''command'')],
            thrown = None, conf = config a\<rparr>"
  using assms by (simp add: dispatch_with_command handleEvent_default returns_def)

theorem dispatch_non_command_value_witness:
  "snd (dispatch no_coercion sample_app (JObj [(''command'', JNull)])) =
     \<lparr>acts = [ConsoleLog ''system.unknown_command'' JNull], thrown = None,
      conf = config sample_app\<rparr> \<and>
   snd (dispatch no_coercion sample_app
          (JObj [(''command'', JUndefined), (''content'', JStr ''text'')])) =
     \<lparr>acts = [ConsoleLog ''system.unknown_command'' JUndefined], thrown = None,
      conf = config sample_app\<rparr>"
  using
    dispatch_non_command_value [of "JObj [(''command'', JNull)]" no_coercion sample_app]
    dispatch_non_command_value [of "JObj [(''command'', JUndefined), (''content'', JStr ''text'')]"
      no_coercion sample_app]
  by (auto simp: own_keys_def own_value_def)

text \<open>
  \<^verbatim>\<open>{command: null, hasOwnProperty: true}\<close> has a \<^verbatim>\<open>command\<close> property holding
  \<^verbatim>\<open>null\<close>, but the presence test throws and no warning is written.
\<close>

theorem dispatch_null_command_shadowed_throws:
  "snd (dispatch no_coercion sample_app
          (JObj [(''command'', JNull), (''hasOwnProperty'', JBool True)])) =
     \<lparr>acts = [], thrown = Some TypeError, conf = config sample_app\<rparr>"
  by (simp add: dispatch_def has_own_property_def nullish_def own_keys_def throws_def)

subsection \<open>The toggles and their content\<close>

text \<open>
  C10. \<^verbatim>\<open>handleEvent\<close> on \<^verbatim>\<open>toggle-theme\<close> and on \<^verbatim>\<open>toggle-snippets\<close> does not look
  at the content: for any two contents (the string \<^verbatim>\<open>'no-emit'\<close> among them) the whole
  outcome is the same, trace, configuration and all. No message is sent, and the
  configuration afterwards is the old one with the negated truth value of the setting
  stored under its key.
\<close>

theorem toggle_ignores_content:
  "handleEvent co a (JStr ''toggle-theme'') c1 = handleEvent co' a (JStr ''toggle-theme'') c2 \<and>
   handleEvent co a (JStr ''toggle-snippets'') c1 = handleEvent co' a (JStr ''toggle-snippets'') c2 \<and>
   sent (acts (handleEvent co a (JStr ''toggle-theme'') c1)) = [] \<and>
   sent (acts (handleEvent co a (JStr ''toggle-snippets'') c1)) = [] \<and>
   conf (handleEvent co a (JStr ''toggle-theme'') c1) =
     (config a)(JStr ''darkTheme'' := JBool (\<not> truthy (config a (JStr ''darkTheme'')))) \<and>
   conf (handleEvent co a (JStr ''toggle-snippets'') c1) =
     (config a)(JStr ''snippets'' := JBool (\<not> truthy (config a (JStr ''snippets''))))"
  by (simp add: handleEvent_def toggle_def cfg_get_def cfg_set_def Let_def)

theorem toggle_ignores_content_witness:
  "handleEvent no_coercion sample_app (JStr ''toggle-theme'') (JStr ''no-emit'') =
     handleEvent no_coercion sample_app (JStr ''toggle-theme'') (JObj []) \<and>
   conf (handleEvent no_coercion sample_app (JStr ''toggle-theme'') (JStr ''no-emit''))
     (JStr ''darkTheme'') = JBool True"
proof -
  note t = toggle_ignores_content [of no_coercion sample_app "JStr ''no-emit''" no_coercion "JObj []"]
  from t have same: "handleEvent no_coercion sample_app (JStr ''toggle-theme'') (JStr ''no-emit'') =
      handleEvent no_coercion sample_app (JStr ''toggle-theme'') (JObj [])"
    by (rule conjunct1)
  from t have "conf (handleEvent no_coercion sample_app (JStr ''toggle-theme'') (JStr ''no-emit'')) =
      (config sample_app)
        (JStr ''darkTheme'' := JBool (\<not> truthy (config sample_app (JStr ''darkTheme''))))"
    by blast
  then have "conf (handleEvent no_coercion sample_app (JStr ''toggle-theme'') (JStr ''no-emit''))
      (JStr ''darkTheme'') = JBool True"
    by (simp add: sample_app_def sample_config_def)
  with same show ?thesis by (rule conjI)
qed

end
